theory Spec2Isabelle
  imports Main "HOL-Library.Word"
begin

section \<open>The login endpoint of pkg/controller/login.go\<close>

text \<open>
  A shallow embedding of \<^verbatim>\<open>loginEndpoint\<close>, \<^verbatim>\<open>validateLogin\<close> and
  \<^verbatim>\<open>generateToken\<close>. Go strings are byte strings (\<open>len\<close> counts bytes), so a
  Go \<^verbatim>\<open>string\<close> is a \<^typ>\<open>string\<close>; \<^verbatim>\<open>uint64\<close> is \<^typ>\<open>64 word\<close>. Every
  collaborator the handler calls (captcha check, hasher, store, billing repository,
  signer, clock, Sentry) is a field of the controller or an entry of the event log the
  handler returns next to its HTTP response.
\<close>

subsection \<open>Errors and HTTP status codes\<close>

text \<open>
  A Go \<^verbatim>\<open>error\<close> value. \<^verbatim>\<open>pg.ErrNoRows\<close> is the sentinel the handler compares
  against; every other error is known by its message only.
\<close>

datatype error = ErrNoRows | Error string

fun errorString :: "error \<Rightarrow> string" where
  "errorString ErrNoRows = ''pg: no rows in result set''"
| "errorString (Error m) = m"

text \<open>\<^verbatim>\<open>errors.Wrap(err, msg)\<close>: a new error whose text is the message, then the cause.\<close>

definition Wrap :: "error \<Rightarrow> string \<Rightarrow> error" where
  "Wrap err msg = Error (msg @ '': '' @ errorString err)"

abbreviation StatusBadRequest :: nat where "StatusBadRequest \<equiv> 400"
abbreviation StatusForbidden :: nat where "StatusForbidden \<equiv> 403"
abbreviation StatusInternalServerError :: nat where "StatusInternalServerError \<equiv> 500"
abbreviation StatusNotImplemented :: nat where "StatusNotImplemented \<equiv> 501"

subsection \<open>strings.TrimSpace and strings.ToLower\<close>

text \<open>
  \<^verbatim>\<open>strings.TrimSpace\<close> removes leading, then trailing, white space as
  \<^verbatim>\<open>unicode.IsSpace\<close> defines it. On the UTF-8 bytes of a Go string these are the
  six ASCII bytes 09..0D and 20, and the encodings of U+0085, U+00A0, U+1680,
  U+2000..U+200A, U+2028, U+2029, U+202F, U+205F and U+3000. A byte that does not start
  one of these encodings decodes to a rune that is not white space, and stops the trim.
\<close>

definition spaceRunes :: "string list" where
  "spaceRunes =
     [[CHR 0x09], [CHR 0x0A], [CHR 0x0B], [CHR 0x0C], [CHR 0x0D], [CHR 0x20],
      [CHR 0xC2, CHR 0x85], [CHR 0xC2, CHR 0xA0],
      [CHR 0xE1, CHR 0x9A, CHR 0x80],
      [CHR 0xE2, CHR 0x80, CHR 0x80], [CHR 0xE2, CHR 0x80, CHR 0x81],
      [CHR 0xE2, CHR 0x80, CHR 0x82], [CHR 0xE2, CHR 0x80, CHR 0x83],
      [CHR 0xE2, CHR 0x80, CHR 0x84], [CHR 0xE2, CHR 0x80, CHR 0x85],
      [CHR 0xE2, CHR 0x80, CHR 0x86], [CHR 0xE2, CHR 0x80, CHR 0x87],
      [CHR 0xE2, CHR 0x80, CHR 0x88], [CHR 0xE2, CHR 0x80, CHR 0x89],
      [CHR 0xE2, CHR 0x80, CHR 0x8A],
      [CHR 0xE2, CHR 0x80, CHR 0xA8], [CHR 0xE2, CHR 0x80, CHR 0xA9],
      [CHR 0xE2, CHR 0x80, CHR 0xAF],
      [CHR 0xE2, CHR 0x81, CHR 0x9F],
      [CHR 0xE3, CHR 0x80, CHR 0x80]]"

text \<open>
  The number of bytes of the white-space rune the string starts with, among the given
  encodings; 0 when it starts with none.
\<close>

fun spaceWidth :: "string list \<Rightarrow> string \<Rightarrow> nat" where
  "spaceWidth [] s = 0"
| "spaceWidth (r # rs) s =
     (if r \<noteq> [] \<and> take (length r) s = r then length r else spaceWidth rs s)"

fun trimLeft :: "string list \<Rightarrow> nat \<Rightarrow> string \<Rightarrow> string" where
  "trimLeft rs 0 s = s"
| "trimLeft rs (Suc n) s =
     (if spaceWidth rs s = 0 then s else trimLeft rs n (drop (spaceWidth rs s) s))"

text \<open>
  Each round of \<open>trimLeft\<close> removes at least one byte, so \<open>length s\<close> rounds are
  enough to reach the first byte that is not white space. The trailing trim reads the
  string backwards, against the reversed encodings.
\<close>

definition TrimLeftSpace :: "string \<Rightarrow> string" where
  "TrimLeftSpace s = trimLeft spaceRunes (length s) s"

definition TrimRightSpace :: "string \<Rightarrow> string" where
  "TrimRightSpace s = rev (trimLeft (map rev spaceRunes) (length s) (rev s))"

definition TrimSpace :: "string \<Rightarrow> string" where
  "TrimSpace s = TrimRightSpace (TrimLeftSpace s)"

text \<open>
  \<^verbatim>\<open>strings.ToLower\<close>: a string of ASCII bytes only has its letters A..Z mapped to
  a..z byte by byte; any other string goes through \<^verbatim>\<open>strings.Map(unicode.ToLower, s)\<close>,
  which needs the Unicode case tables and is a parameter here.
\<close>

definition isASCII :: "string \<Rightarrow> bool" where
  "isASCII s = list_all (\<lambda>c. (of_char c :: nat) < 128) s"

definition lowerByte :: "char \<Rightarrow> char" where
  "lowerByte c =
     (if 65 \<le> (of_char c :: nat) \<and> (of_char c :: nat) \<le> 90
      then char_of ((of_char c :: nat) + 32) else c)"

definition ToLower :: "(string \<Rightarrow> string) \<Rightarrow> string \<Rightarrow> string" where
  "ToLower unicodeLower s = (if isASCII s then map lowerByte s else unicodeLower s)"

subsection \<open>Data\<close>

text \<open>The decoded request body (the anonymous struct of lines 41-45).\<close>

record LoginRequest =
  Email :: string
  Password :: string
  Captcha :: string

text \<open>
  \<^verbatim>\<open>models.User\<close> and \<^verbatim>\<open>models.Login\<close> with the fields the handler and its query
  read. The \<open>Users\<close> of a login are the rows the \<^verbatim>\<open>Relation("Users")\<close> join loads.
  The login's \<^verbatim>\<open>Email\<close> column is \<open>LoginEmail\<close> here, the request having an
  \<open>Email\<close> of its own.
\<close>

record User =
  UserId :: "64 word"
  AccountId :: "64 word"

record Login =
  LoginId :: "64 word"
  LoginEmail :: string
  PasswordHash :: string
  Users :: "User list"

text \<open>
  The subscription row of the billing repository; \<^verbatim>\<open>stripe.SubscriptionStatus\<close> is a
  string type, and the seven statuses are the constants of stripe-go v72.
\<close>

record Subscription =
  Status :: string

abbreviation SubscriptionStatusActive :: string where
  "SubscriptionStatusActive \<equiv> ''active''"
abbreviation SubscriptionStatusTrialing :: string where
  "SubscriptionStatusTrialing \<equiv> ''trialing''"
abbreviation SubscriptionStatusPastDue :: string where
  "SubscriptionStatusPastDue \<equiv> ''past_due''"
abbreviation SubscriptionStatusUnpaid :: string where
  "SubscriptionStatusUnpaid \<equiv> ''unpaid''"
abbreviation SubscriptionStatusCanceled :: string where
  "SubscriptionStatusCanceled \<equiv> ''canceled''"
abbreviation SubscriptionStatusIncomplete :: string where
  "SubscriptionStatusIncomplete \<equiv> ''incomplete''"
abbreviation SubscriptionStatusIncompleteExpired :: string where
  "SubscriptionStatusIncompleteExpired \<equiv> ''incomplete_expired''"

text \<open>
  \<^verbatim>\<open>jwt.StandardClaims\<close> and \<^verbatim>\<open>HarderClaims\<close> (lines 19-25). The three time stamps
  are \<^verbatim>\<open>int64\<close> Unix seconds; they are integers here, far from the ends of the range.
  The fields \<^verbatim>\<open>LoginId\<close>, \<^verbatim>\<open>UserId\<close> and \<^verbatim>\<open>AccountId\<close> of the claims are
  \<open>claimLoginId\<close>, \<open>claimUserId\<close> and \<open>claimAccountId\<close>, the rows above having
  fields of the same names; the embedded \<^verbatim>\<open>StandardClaims\<close> is the field \<open>Standard\<close>.
\<close>

record StandardClaims =
  Audience :: "string list"
  ExpiresAt :: int
  Id :: string
  IssuedAt :: int
  Issuer :: string
  NotBefore :: int
  Subject :: string

record HarderClaims =
  claimLoginId :: "64 word"
  claimUserId :: "64 word"
  claimAccountId :: "64 word"
  SubscriptionStatus :: bool
  Standard :: StandardClaims

text \<open>
  The configuration the handler reads: \<^verbatim>\<open>APIDomainName\<close>,
  \<^verbatim>\<open>Stripe.BillingEnabled\<close> and \<^verbatim>\<open>JWT.LoginJwtSecret\<close>.
\<close>

record Configuration =
  APIDomainName :: string
  BillingEnabled :: bool
  LoginJwtSecret :: string

text \<open>
  The controller and the world it runs in. \<open>dbError\<close> is the failure of the database,
  if it has one: every query then returns it. \<open>logins\<close> is the login table, in the
  order the database returns its rows. The functions are the collaborators whose code is
  outside this file: \<^verbatim>\<open>c.validateCaptchaMaybe\<close>, \<^verbatim>\<open>hash.HashPassword\<close>,
  \<^verbatim>\<open>repo.GetActiveSubscription\<close> (for the user and account the repository was made
  for), \<^verbatim>\<open>token.SignedString\<close> (claims, then key) and \<^verbatim>\<open>time.Now\<close> in nanoseconds
  since the Unix epoch.
\<close>

record Controller =
  configuration :: Configuration
  dbError :: "error option"
  logins :: "Login list"
  validateCaptchaMaybe :: "string \<Rightarrow> error option"
  HashPassword :: "string \<Rightarrow> string \<Rightarrow> string"
  GetActiveSubscription :: "64 word \<Rightarrow> 64 word \<Rightarrow> error + Subscription option"
  SignedString :: "HarderClaims \<Rightarrow> string \<Rightarrow> error + string"
  Now :: int
  unicodeToLower :: "string \<Rightarrow> string"

text \<open>
  What the handler writes to the client: \<^verbatim>\<open>c.returnError\<close>,
  \<^verbatim>\<open>c.wrapAndReturnError\<close>, \<^verbatim>\<open>c.wrapPgError\<close>, or \<^verbatim>\<open>ctx.JSON\<close> of a map, whose
  entries are listed in the order the handler adds them.
\<close>

datatype JsonValue = JString string | JUsers "User list"

datatype Response =
    ReturnError nat string
  | WrapAndReturnError error nat string
  | WrapPgError error string
  | JSON "(string \<times> JsonValue) list"

text \<open>
  The calls the handler makes, with their arguments, in the order it makes them: to its
  collaborators, and to \<^verbatim>\<open>c.validateLogin\<close> (line 62), whose two arguments are the
  email and password fields as lines 59-60 have left them.
\<close>

datatype Event =
    CaptchaValidated string
  | LoginValidated string string
  | PasswordHashed string string
  | LoginSelected string string
  | SubscriptionFetched "64 word" "64 word"
  | SentryMessage string
  | TokenSigned HarderClaims string

subsection \<open>validateLogin (lines 167-174)\<close>

definition validateLogin :: "Controller \<Rightarrow> string \<Rightarrow> string \<Rightarrow> error option" where
  "validateLogin c email password =
     (if length password < 8 then Some (Error ''password must be at least 8 characters'')
      else None)"

subsection \<open>generateToken (lines 176-202)\<close>

text \<open>
  \<^verbatim>\<open>time.Time.Unix\<close> is the number of whole seconds since the epoch, rounded down, and
  \<^verbatim>\<open>31 * 24 * time.Hour\<close> is a duration in nanoseconds.
\<close>

definition Unix :: "int \<Rightarrow> int" where
  "Unix t = t div 1000000000"

definition Hour :: int where
  "Hour = 3600 * 1000000000"

text \<open>
  The claims literal of lines 178-193. It names \<^verbatim>\<open>LoginId\<close>, \<^verbatim>\<open>UserId\<close>,
  \<^verbatim>\<open>AccountId\<close> and \<^verbatim>\<open>StandardClaims\<close>; \<^verbatim>\<open>SubscriptionStatus\<close> is not among
  them and so has Go's zero value \<^verbatim>\<open>false\<close>, whatever \<open>subscriptionActive\<close> is.
\<close>

definition tokenClaims ::
  "Controller \<Rightarrow> 64 word \<Rightarrow> 64 word \<Rightarrow> 64 word \<Rightarrow> bool \<Rightarrow> HarderClaims" where
  "tokenClaims c loginId userId accountId subscriptionActive =
     (let now = Now c in
      \<lparr> claimLoginId = loginId,
        claimUserId = userId,
        claimAccountId = accountId,
        SubscriptionStatus = False,
        Standard = \<lparr>
          Audience = [APIDomainName (configuration c)],
          ExpiresAt = Unix (now + 31 * 24 * Hour),
          Id = [],
          IssuedAt = Unix now,
          Issuer = APIDomainName (configuration c),
          NotBefore = Unix now,
          Subject = ''monetr'' \<rparr> \<rparr>)"

definition generateToken ::
  "Controller \<Rightarrow> 64 word \<Rightarrow> 64 word \<Rightarrow> 64 word \<Rightarrow> bool \<Rightarrow> (error + string) \<times> Event list" where
  "generateToken c loginId userId accountId subscriptionActive =
     (let claims = tokenClaims c loginId userId accountId subscriptionActive;
          key = LoginJwtSecret (configuration c);
          evs = [TokenSigned claims key]
      in case SignedString c claims key of
           Inl err \<Rightarrow> (Inl (Wrap err ''failed to sign JWT''), evs)
         | Inr signedToken \<Rightarrow> (Inr signedToken, evs))"

subsection \<open>loginEndpoint (lines 40-165)\<close>

text \<open>
  The query of lines 69-76: the rows whose email and password hash equal the two
  arguments, \<^verbatim>\<open>Limit(1)\<close>, read into one \<^verbatim>\<open>models.Login\<close>; \<^verbatim>\<open>pg.ErrNoRows\<close>
  when there is none.
\<close>

definition selectLogin :: "Controller \<Rightarrow> string \<Rightarrow> string \<Rightarrow> error + Login" where
  "selectLogin c email hashedPassword =
     (case dbError c of
        Some err \<Rightarrow> Inl err
      | None \<Rightarrow>
          (case take 1 (filter (\<lambda>l. LoginEmail l = email \<and> PasswordHash l = hashedPassword)
                          (logins c)) of
             [] \<Rightarrow> Inl ErrNoRows
           | login # _ \<Rightarrow> Inr login))"

text \<open>
  Lines 135-149: the token for the decided \<open>subscriptionIsActive\<close>, and the JSON
  result, with \<^verbatim>\<open>nextUrl\<close> added when the subscription is not active.
\<close>

definition respondWithToken ::
  "Controller \<Rightarrow> Login \<Rightarrow> User \<Rightarrow> Event list \<Rightarrow> bool \<Rightarrow> Response \<times> Event list" where
  "respondWithToken c login user trace subscriptionIsActive =
     (case generateToken c (LoginId login) (UserId user) (AccountId user)
             subscriptionIsActive of
        (Inl err, evs) \<Rightarrow>
          (WrapAndReturnError err StatusInternalServerError ''could not generate JWT'',
           trace @ evs)
      | (Inr token, evs) \<Rightarrow>
          (JSON ([(''token'', JString token)] @
                 (if \<not> subscriptionIsActive
                  then [(''nextUrl'', JString ''/account/subscribe'')] else [])),
           trace @ evs))"

text \<open>
  The \<^verbatim>\<open>case 1\<close> arm of the switch on \<^verbatim>\<open>len(login.Users)\<close> (lines 91-149), given
  the events logged so far.
\<close>

definition loginOneUser ::
  "Controller \<Rightarrow> Login \<Rightarrow> User \<Rightarrow> Event list \<Rightarrow> Response \<times> Event list" where
  "loginOneUser c login user trace =
     (if \<not> BillingEnabled (configuration c) then
        (case generateToken c (LoginId login) (UserId user) (AccountId user) True of
           (Inl err, evs) \<Rightarrow>
             (WrapAndReturnError err StatusInternalServerError ''could not generate JWT'',
              trace @ evs)
         | (Inr token, evs) \<Rightarrow> (JSON [(''token'', JString token)], trace @ evs))
      else
        (let trace = trace @ [SubscriptionFetched (UserId user) (AccountId user)] in
         case GetActiveSubscription c (UserId user) (AccountId user) of
           Inl err \<Rightarrow> (WrapPgError err ''failed to get active subscription'', trace)
         | Inr None \<Rightarrow> respondWithToken c login user trace False
         | Inr (Some subscription) \<Rightarrow>
            (if Status subscription = SubscriptionStatusActive
                \<or> Status subscription = SubscriptionStatusTrialing
             then respondWithToken c login user trace True
             else if Status subscription = SubscriptionStatusPastDue
                \<or> Status subscription = SubscriptionStatusUnpaid
                \<or> Status subscription = SubscriptionStatusCanceled
                \<or> Status subscription = SubscriptionStatusIncomplete
                \<or> Status subscription = SubscriptionStatusIncompleteExpired
             then respondWithToken c login user trace False
             else
               (ReturnError StatusNotImplemented
                  ''invalid subscription status, create a github issue'',
                trace @ [SentryMessage
                           (''invalid subscription status: '' @ Status subscription)]))))"

text \<open>
  The \<^verbatim>\<open>default\<close> arm (lines 150-164): a token for no user and no account, and the
  list of the login's users.
\<close>

definition loginManyUsers ::
  "Controller \<Rightarrow> Login \<Rightarrow> Event list \<Rightarrow> Response \<times> Event list" where
  "loginManyUsers c login trace =
     (case generateToken c (LoginId login) 0 0 True of
        (Inl err, evs) \<Rightarrow>
          (WrapAndReturnError err StatusInternalServerError ''could not generate JWT'',
           trace @ evs)
      | (Inr token, evs) \<Rightarrow>
          (JSON [(''token'', JString token), (''users'', JUsers (Users login))],
           trace @ evs))"

text \<open>
  The handler. Its argument is what \<^verbatim>\<open>ctx.ReadJSON\<close> gives: a decoding error or the
  request. It returns the response written and the collaborator calls made.
\<close>

definition loginEndpoint ::
  "Controller \<Rightarrow> error + LoginRequest \<Rightarrow> Response \<times> Event list" where
  "loginEndpoint c body =
     (case body of
        Inl err \<Rightarrow>
          (WrapAndReturnError err StatusBadRequest ''failed to decode login request'', [])
      | Inr loginRequest \<Rightarrow>
         (let trace = [CaptchaValidated (Captcha loginRequest)] in
          case validateCaptchaMaybe c (Captcha loginRequest) of
            Some err \<Rightarrow>
              (WrapAndReturnError err StatusBadRequest ''valid ReCAPTCHA is required'', trace)
          | None \<Rightarrow>
             (let email = ToLower (unicodeToLower c) (TrimSpace (Email loginRequest));
                  password = TrimSpace (Password loginRequest);
                  trace = trace @ [LoginValidated email password]
              in case validateLogin c email password of
                   Some err \<Rightarrow>
                     (WrapAndReturnError err StatusBadRequest ''login is not valid'', trace)
                 | None \<Rightarrow>
                    (let hashedPassword = HashPassword c email password;
                         trace = trace @ [PasswordHashed email password,
                                          LoginSelected email hashedPassword]
                     in case selectLogin c email hashedPassword of
                          Inl err \<Rightarrow>
                            (if err = ErrNoRows
                             then (ReturnError StatusForbidden ''invalid email and password'',
                                   trace)
                             else (WrapAndReturnError err StatusInternalServerError
                                     ''failed to authenticate'', trace))
                        | Inr login \<Rightarrow>
                           (case Users login of
                              [] \<Rightarrow> (ReturnError StatusForbidden ''user has no accounts'', trace)
                            | [user] \<Rightarrow> loginOneUser c login user trace
                            | _ # _ # _ \<Rightarrow> loginManyUsers c login trace)))))"

subsection \<open>The outcomes of the specification\<close>

text \<open>
  The specification names the result of a login by an outcome and, for a failure, a
  kind. This is its vocabulary, read off the response the handler writes: the three JSON
  shapes are the three successes, and each error response is the failure the
  specification files it under.
\<close>

datatype FailureKind =
  InvalidInput | InvalidCredentials | NoLinkedAccounts | UnsupportedBillingStatus
  | Infrastructure

datatype Outcome =
    Authenticated string
  | AuthenticatedNeedsSubscription string
  | Disambiguation string "User list"
  | Failure FailureKind

definition outcome :: "Response \<Rightarrow> Outcome" where
  "outcome r =
     (case r of
        JSON [(k, JString token)] \<Rightarrow>
          (if k = ''token'' then Authenticated token else Failure Infrastructure)
      | JSON [(k, JString token), (k', JString url)] \<Rightarrow>
          (if k = ''token'' \<and> k' = ''nextUrl'' then AuthenticatedNeedsSubscription token
           else Failure Infrastructure)
      | JSON [(k, JString token), (k', JUsers users)] \<Rightarrow>
          (if k = ''token'' \<and> k' = ''users'' then Disambiguation token users
           else Failure Infrastructure)
      | ReturnError code msg \<Rightarrow>
          (if code = StatusForbidden \<and> msg = ''invalid email and password''
           then Failure InvalidCredentials
           else if code = StatusForbidden \<and> msg = ''user has no accounts''
           then Failure NoLinkedAccounts
           else if code = StatusNotImplemented then Failure UnsupportedBillingStatus
           else Failure Infrastructure)
      | WrapAndReturnError err code msg \<Rightarrow>
          (if code = StatusBadRequest then Failure InvalidInput else Failure Infrastructure)
      | _ \<Rightarrow> Failure Infrastructure)"

subsection \<open>What a request looks up\<close>

text \<open>
  The values the handler computes from a request before it reads the store: the
  normalised email (line 59), the trimmed password (line 60), the digest (line 67), and
  the calls it has made once the query of lines 69-76 has run.
\<close>

definition requestEmail :: "Controller \<Rightarrow> LoginRequest \<Rightarrow> string" where
  "requestEmail c r = ToLower (unicodeToLower c) (TrimSpace (Email r))"

definition requestPassword :: "LoginRequest \<Rightarrow> string" where
  "requestPassword r = TrimSpace (Password r)"

definition requestHash :: "Controller \<Rightarrow> LoginRequest \<Rightarrow> string" where
  "requestHash c r = HashPassword c (requestEmail c r) (requestPassword r)"

definition lookupTrace :: "Controller \<Rightarrow> LoginRequest \<Rightarrow> Event list" where
  "lookupTrace c r =
     [CaptchaValidated (Captcha r),
      LoginValidated (requestEmail c r) (requestPassword r),
      PasswordHashed (requestEmail c r) (requestPassword r),
      LoginSelected (requestEmail c r) (requestHash c r)]"

text \<open>The rows of the login table the query's \<^verbatim>\<open>Where\<close> clause keeps.\<close>

definition matching :: "Controller \<Rightarrow> string \<Rightarrow> string \<Rightarrow> Login list" where
  "matching c email hashedPassword =
     filter (\<lambda>l. LoginEmail l = email \<and> PasswordHash l = hashedPassword) (logins c)"

text \<open>
  An identifier is known when some row carries it; a secret is wrong for a known
  identifier when no row with that identifier carries the digest presented.
\<close>

definition knownIdentifier :: "Controller \<Rightarrow> string \<Rightarrow> bool" where
  "knownIdentifier c email = (filter (\<lambda>l. LoginEmail l = email) (logins c) \<noteq> [])"

definition wrongSecret :: "Controller \<Rightarrow> string \<Rightarrow> string \<Rightarrow> bool" where
  "wrongSecret c email hashedPassword =
     (knownIdentifier c email \<and> matching c email hashedPassword = [])"

text \<open>The status strings the switch of lines 118-132 has a case for.\<close>

definition recognizedStatuses :: "string list" where
  "recognizedStatuses =
     [SubscriptionStatusActive, SubscriptionStatusTrialing, SubscriptionStatusPastDue,
      SubscriptionStatusUnpaid, SubscriptionStatusCanceled, SubscriptionStatusIncomplete,
      SubscriptionStatusIncompleteExpired]"

definition tokenEvents :: "Event list \<Rightarrow> Event list" where
  "tokenEvents evs = filter (\<lambda>e. case e of TokenSigned claims key \<Rightarrow> True | _ \<Rightarrow> False) evs"

definition billingEvents :: "Event list \<Rightarrow> Event list" where
  "billingEvents evs =
     filter (\<lambda>e. case e of SubscriptionFetched u a \<Rightarrow> True | _ \<Rightarrow> False) evs"

subsection \<open>A test installation\<close>

text \<open>
  A controller with three logins (one user, no user, two users), a hasher that joins
  email and password, a signer that always signs, and a clock stopped at
  1700000000.5 seconds. Billing and the subscription the repository returns are
  arguments.
\<close>

definition testLogins :: "Login list" where
  "testLogins =
     [\<lparr> LoginId = 1, LoginEmail = ''solo@monetr.test'',
        PasswordHash = ''solo@monetr.test:password1'',
        Users = [\<lparr> UserId = 10, AccountId = 100 \<rparr>] \<rparr>,
      \<lparr> LoginId = 2, LoginEmail = ''none@monetr.test'',
        PasswordHash = ''none@monetr.test:password2'',
        Users = [] \<rparr>,
      \<lparr> LoginId = 3, LoginEmail = ''many@monetr.test'',
        PasswordHash = ''many@monetr.test:password3'',
        Users = [\<lparr> UserId = 30, AccountId = 300 \<rparr>, \<lparr> UserId = 31, AccountId = 301 \<rparr>] \<rparr>]"

definition testController :: "bool \<Rightarrow> Subscription option \<Rightarrow> Controller" where
  "testController billing subscription =
     \<lparr> configuration =
         \<lparr> APIDomainName = ''api.monetr.test'', BillingEnabled = billing,
           LoginJwtSecret = ''key'' \<rparr>,
       dbError = None,
       logins = testLogins,
       validateCaptchaMaybe = (\<lambda>captcha. None),
       HashPassword = (\<lambda>email password. email @ '':'' @ password),
       GetActiveSubscription = (\<lambda>userId accountId. Inr subscription),
       SignedString = (\<lambda>claims key. Inr ''signed''),
       Now = 1700000000500000000,
       unicodeToLower = (\<lambda>s. s) \<rparr>"

definition testRequest :: "string \<Rightarrow> string \<Rightarrow> LoginRequest" where
  "testRequest email password = \<lparr> Email = email, Password = password, Captcha = [] \<rparr>"

text \<open>
  The same installation, billing off, with a second row for the first login's email and
  digest: another login id, and no user.
\<close>

definition twinController :: Controller where
  "twinController =
     (testController False None)
       \<lparr> logins := testLogins @
           [\<lparr> LoginId = 9, LoginEmail = ''solo@monetr.test'',
              PasswordHash = ''solo@monetr.test:password1'', Users = [] \<rparr>] \<rparr>"

section \<open>Properties\<close>

subsection \<open>The string functions\<close>

lemma spaceWidth_le: "spaceWidth rs s \<le> length s"
proof (induction rs)
  case Nil
  show ?case by simp
next
  case (Cons r rs)
  have "take (length r) s = r \<Longrightarrow> length r \<le> length s"
    by (metis length_take min.cobounded1)
  with Cons show ?case by simp
qed

lemma spaceWidth_Nil: "spaceWidth rs [] = 0"
  by (induction rs) auto

text \<open>The rounds \<open>trimLeft\<close> is given are enough: what it returns starts with no white space.\<close>

lemma trimLeft_done: "length s \<le> n \<Longrightarrow> spaceWidth rs (trimLeft rs n s) = 0"
proof (induction n arbitrary: s)
  case 0
  then show ?case by (simp add: spaceWidth_Nil)
next
  case (Suc n)
  show ?case
  proof (cases "spaceWidth rs s = 0")
    case True
    then show ?thesis by simp
  next
    case False
    with Suc.prems have "length (drop (spaceWidth rs s) s) \<le> n" by simp
    with Suc.IH False show ?thesis by simp
  qed
qed

lemma TrimLeftSpace_trimmed: "spaceWidth spaceRunes (TrimLeftSpace s) = 0"
  by (simp add: TrimLeftSpace_def trimLeft_done)

lemma TrimSpace_Nil: "TrimSpace [] = []"
  by (simp add: TrimSpace_def TrimLeftSpace_def TrimRightSpace_def)

lemma ToLower_Nil: "ToLower f [] = []"
  by (simp add: ToLower_def isASCII_def)

text \<open>
  What \<open>TrimSpace\<close> returns has no white space at either end, and \<open>ToLower\<close> leaves
  none of the bytes A..Z in a string of ASCII bytes.
\<close>

lemma spaceWidth_take: "spaceWidth rs s = 0 \<Longrightarrow> spaceWidth rs (take m s) = 0"
proof (induction rs)
  case Nil
  show ?case by simp
next
  case (Cons r rs)
  have "take (length r) s = r" if "take (length r) (take m s) = r"
  proof -
    from that have "length r \<le> m"
      by (metis length_take min.cobounded1 min.absorb3 not_le_imp_less take_all_iff nat_le_linear min.bounded_iff)
    with that show ?thesis by (simp add: min_def)
  qed
  with Cons show ?case by (auto split: if_splits)
qed

lemma trimLeft_drop: "\<exists>k. trimLeft rs n s = drop k s"
proof (induction n arbitrary: s)
  case 0
  have "trimLeft rs 0 s = drop 0 s" by simp
  then show ?case by blast
next
  case (Suc n)
  show ?case
  proof (cases "spaceWidth rs s = 0")
    case True
    then have "trimLeft rs (Suc n) s = drop 0 s" by simp
    then show ?thesis by blast
  next
    case False
    from Suc.IH obtain k where "trimLeft rs n (drop (spaceWidth rs s) s) = drop k (drop (spaceWidth rs s) s)"
      by blast
    with False have "trimLeft rs (Suc n) s = drop (k + spaceWidth rs s) s" by simp
    then show ?thesis by blast
  qed
qed

lemma TrimSpace_trimmed:
  "spaceWidth spaceRunes (TrimSpace s) = 0
   \<and> spaceWidth (map rev spaceRunes) (rev (TrimSpace s)) = 0"
proof -
  obtain k where "trimLeft (map rev spaceRunes) (length (TrimLeftSpace s)) (rev (TrimLeftSpace s)) =
      drop k (rev (TrimLeftSpace s))"
    using trimLeft_drop by blast
  then have "TrimSpace s = take (length (TrimLeftSpace s) - k) (TrimLeftSpace s)"
    by (simp add: TrimSpace_def TrimRightSpace_def rev_drop)
  then have front: "spaceWidth spaceRunes (TrimSpace s) = 0"
    by (simp add: spaceWidth_take TrimLeftSpace_trimmed)
  have "spaceWidth (map rev spaceRunes) (rev (TrimSpace s)) = 0"
    by (simp add: TrimSpace_def TrimRightSpace_def trimLeft_done)
  with front show ?thesis by simp
qed

lemma lowerByte_lower:
  "\<not> (65 \<le> (of_char (lowerByte c) :: nat) \<and> (of_char (lowerByte c) :: nat) \<le> 90)"
  by (auto simp: lowerByte_def)

lemma ToLower_ascii:
  assumes "isASCII s"
  shows "ToLower f s = map lowerByte s"
  using assms by (simp add: ToLower_def)

subsection \<open>The handler up to the store lookup\<close>

text \<open>
  Once the captcha check has passed and the trimmed password has eight bytes or more,
  the handler hashes, queries the store and branches on what the query returns.
\<close>

lemma loginEndpoint_lookup:
  assumes "validateCaptchaMaybe c (Captcha r) = None"
    and "8 \<le> length (requestPassword r)"
  shows "loginEndpoint c (Inr r) =
     (case selectLogin c (requestEmail c r) (requestHash c r) of
        Inl err \<Rightarrow>
          (if err = ErrNoRows
           then (ReturnError StatusForbidden ''invalid email and password'', lookupTrace c r)
           else (WrapAndReturnError err StatusInternalServerError ''failed to authenticate'',
                 lookupTrace c r))
      | Inr login \<Rightarrow>
          (case Users login of
             [] \<Rightarrow> (ReturnError StatusForbidden ''user has no accounts'', lookupTrace c r)
           | [user] \<Rightarrow> loginOneUser c login user (lookupTrace c r)
           | _ # _ # _ \<Rightarrow> loginManyUsers c login (lookupTrace c r)))"
  using assms
  by (simp add: loginEndpoint_def validateLogin_def requestEmail_def requestPassword_def
      requestHash_def lookupTrace_def Let_def split: sum.splits list.splits)

lemma selectLogin_matching:
  "selectLogin c email h =
     (case dbError c of
        Some err \<Rightarrow> Inl err
      | None \<Rightarrow> (case matching c email h of [] \<Rightarrow> Inl ErrNoRows | login # _ \<Rightarrow> Inr login))"
  by (simp add: selectLogin_def matching_def split: option.splits list.splits)

lemma loginEndpoint_captcha_failed:
  assumes "validateCaptchaMaybe c (Captcha r) = Some err"
  shows "loginEndpoint c (Inr r) =
           (WrapAndReturnError err StatusBadRequest ''valid ReCAPTCHA is required'',
            [CaptchaValidated (Captcha r)])"
  using assms by (simp add: loginEndpoint_def)

lemma loginEndpoint_short:
  assumes "validateCaptchaMaybe c (Captcha r) = None"
    and "length (requestPassword r) < 8"
  shows "loginEndpoint c (Inr r) =
           (WrapAndReturnError (Error ''password must be at least 8 characters'')
              StatusBadRequest ''login is not valid'',
            [CaptchaValidated (Captcha r),
             LoginValidated (requestEmail c r) (requestPassword r)])"
  using assms
  by (simp add: loginEndpoint_def validateLogin_def requestEmail_def requestPassword_def
      Let_def)

subsection \<open>The store lookup\<close>

lemma selectLogin_found:
  assumes "selectLogin c email h = Inr login"
  shows "LoginEmail login = email \<and> PasswordHash login = h \<and> login \<in> set (logins c)"
proof -
  from assms obtain rest where "matching c email h = login # rest"
    by (auto simp: selectLogin_matching split: option.splits list.splits)
  then have "login \<in> set (matching c email h)" by simp
  then show ?thesis by (simp add: matching_def)
qed

lemma selectLogin_no_match:
  assumes "dbError c = None" and "matching c email h = []"
  shows "selectLogin c email h = Inl ErrNoRows"
  using assms by (simp add: selectLogin_matching)

lemma unknown_no_match:
  assumes "\<not> knownIdentifier c email"
  shows "matching c email h = []"
proof -
  from assms have "\<forall>l \<in> set (logins c). LoginEmail l \<noteq> email"
    by (simp add: knownIdentifier_def filter_empty_conv)
  then show ?thesis by (simp add: matching_def filter_empty_conv)
qed

lemma not_found_response:
  assumes "validateCaptchaMaybe c (Captcha r) = None"
    and "8 \<le> length (requestPassword r)"
    and "selectLogin c (requestEmail c r) (requestHash c r) = Inl ErrNoRows"
  shows "loginEndpoint c (Inr r) =
           (ReturnError StatusForbidden ''invalid email and password'', lookupTrace c r)"
  using assms by (simp add: loginEndpoint_lookup)

lemma outcome_invalid_credentials:
  "outcome (ReturnError StatusForbidden ''invalid email and password'') =
     Failure InvalidCredentials"
  by (simp add: outcome_def)

lemma outcome_no_linked_accounts:
  "outcome (ReturnError StatusForbidden ''user has no accounts'') = Failure NoLinkedAccounts"
  by (simp add: outcome_def)

text \<open>Nothing but the query reads the login table.\<close>

lemma generateToken_logins [simp]:
  "generateToken (c\<lparr>logins := ls\<rparr>) = generateToken c"
  by (rule ext)+ (simp add: generateToken_def tokenClaims_def)

lemma respondWithToken_logins [simp]:
  "respondWithToken (c\<lparr>logins := ls\<rparr>) = respondWithToken c"
  by (rule ext)+ (simp add: respondWithToken_def)

lemma loginOneUser_logins [simp]:
  "loginOneUser (c\<lparr>logins := ls\<rparr>) = loginOneUser c"
  by (rule ext)+
     (simp add: loginOneUser_def Let_def
        cong: if_cong sum.case_cong option.case_cong)

lemma loginManyUsers_logins [simp]:
  "loginManyUsers (c\<lparr>logins := ls\<rparr>) = loginManyUsers c"
  by (rule ext)+ (simp add: loginManyUsers_def)

lemma request_logins [simp]:
  "requestEmail (c\<lparr>logins := ls\<rparr>) r = requestEmail c r"
  "requestHash (c\<lparr>logins := ls\<rparr>) r = requestHash c r"
  "lookupTrace (c\<lparr>logins := ls\<rparr>) r = lookupTrace c r"
  by (simp_all add: requestEmail_def requestHash_def lookupTrace_def)

text \<open>
  The handler reads the login table through the query only, and the query keeps one row:
  the table may be cut down to that row.
\<close>

lemma lookup_ignores_other_rows:
  "loginEndpoint c (Inr r) =
     loginEndpoint
       (c\<lparr>logins := take 1 (matching c (requestEmail c r) (requestHash c r))\<rparr>) (Inr r)"
proof -
  let ?c = "c\<lparr>logins := take 1 (matching c (requestEmail c r) (requestHash c r))\<rparr>"
  have "matching ?c (requestEmail c r) (requestHash c r) =
        take 1 (matching c (requestEmail c r) (requestHash c r))"
    by (cases "matching c (requestEmail c r) (requestHash c r)")
       (auto simp: matching_def filter_eq_Cons_iff)
  then have same: "selectLogin ?c (requestEmail c r) (requestHash c r) =
        selectLogin c (requestEmail c r) (requestHash c r)"
    by (cases "matching c (requestEmail c r) (requestHash c r)")
       (simp_all add: selectLogin_matching split: option.splits)
  have "loginEndpoint ?c (Inr r) = loginEndpoint c (Inr r)"
  proof (cases "validateCaptchaMaybe c (Captcha r)")
    case (Some err)
    then have "validateCaptchaMaybe ?c (Captcha r) = Some err" by simp
    with Some show ?thesis by (simp only: loginEndpoint_captcha_failed)
  next
    case None
    then have captcha: "validateCaptchaMaybe ?c (Captcha r) = None" by simp
    show ?thesis
    proof (cases "length (requestPassword r) < 8")
      case True
      with None captcha show ?thesis by (simp add: loginEndpoint_short)
    next
      case False
      then have "8 \<le> length (requestPassword r)" by simp
      with None captcha same show ?thesis
        by (simp add: loginEndpoint_lookup cong: if_cong sum.case_cong list.case_cong)
    qed
  qed
  then show ?thesis by simp
qed

subsection \<open>The token\<close>

text \<open>
  What \<open>generateToken\<close> signs: the three ids as passed, the standard claims of lines
  182-192 with the expiry \<open>31 * 24 * 3600\<close> seconds after the issue time, and a
  \<^verbatim>\<open>SubscriptionStatus\<close> that is false whatever flag the caller passed.
\<close>

lemma tokenClaims_subject:
  "claimLoginId (tokenClaims c loginId userId accountId active) = loginId
   \<and> claimUserId (tokenClaims c loginId userId accountId active) = userId
   \<and> claimAccountId (tokenClaims c loginId userId accountId active) = accountId"
  by (simp add: tokenClaims_def Let_def)

lemma tokenClaims_standard:
  "Standard (tokenClaims c loginId userId accountId active) =
     \<lparr> Audience = [APIDomainName (configuration c)],
       ExpiresAt = Unix (Now c) + 31 * 24 * 3600,
       Id = [],
       IssuedAt = Unix (Now c),
       Issuer = APIDomainName (configuration c),
       NotBefore = Unix (Now c),
       Subject = ''monetr'' \<rparr>"
proof -
  have "(Now c + 31 * 24 * (3600 * 1000000000)) div 1000000000 =
        Now c div 1000000000 + 31 * 24 * 3600"
    by linarith
  then show ?thesis by (simp add: tokenClaims_def Let_def Unix_def Hour_def)
qed

lemma tokenClaims_flag_unused:
  "SubscriptionStatus (tokenClaims c loginId userId accountId active) = False
   \<and> tokenClaims c loginId userId accountId True = tokenClaims c loginId userId accountId False"
  by (simp add: tokenClaims_def Let_def)

lemma generateToken_signed:
  assumes "SignedString c (tokenClaims c loginId userId accountId active)
             (LoginJwtSecret (configuration c)) = Inr token"
  shows "generateToken c loginId userId accountId active =
     (Inr token,
      [TokenSigned (tokenClaims c loginId userId accountId active)
         (LoginJwtSecret (configuration c))])"
  using assms by (simp add: generateToken_def Let_def)

lemma respondWithToken_signed:
  assumes "SignedString c
             (tokenClaims c (LoginId login) (UserId user) (AccountId user) active)
             (LoginJwtSecret (configuration c)) = Inr token"
  shows "respondWithToken c login user tr active =
     (JSON ([(''token'', JString token)] @
            (if active then [] else [(''nextUrl'', JString ''/account/subscribe'')])),
      tr @ [TokenSigned (tokenClaims c (LoginId login) (UserId user) (AccountId user) active)
              (LoginJwtSecret (configuration c))])"
  using assms by (simp add: respondWithToken_def generateToken_signed)

subsection \<open>The branches on the number of users\<close>

text \<open>
  With billing on and a subscription that is absent or in a recognised status, the
  handler answers through lines 135-149 with the flag the switch of lines 114-133
  decides: true for \<^verbatim>\<open>active\<close> and \<^verbatim>\<open>trialing\<close>, false for the five other
  statuses and for no subscription.
\<close>

lemma billing_decision:
  assumes "validateCaptchaMaybe c (Captcha r) = None"
    and "8 \<le> length (requestPassword r)"
    and "selectLogin c (requestEmail c r) (requestHash c r) = Inr login"
    and "Users login = [user]"
    and "BillingEnabled (configuration c)"
    and "GetActiveSubscription c (UserId user) (AccountId user) = Inr subscription"
    and "subscription = None \<or> (\<exists>sub. subscription = Some sub \<and> Status sub \<in> set recognizedStatuses)"
  shows "loginEndpoint c (Inr r) =
     respondWithToken c login user
       (lookupTrace c r @ [SubscriptionFetched (UserId user) (AccountId user)])
       (case subscription of
          None \<Rightarrow> False
        | Some sub \<Rightarrow> Status sub = SubscriptionStatusActive
                      \<or> Status sub = SubscriptionStatusTrialing)"
proof -
  have "loginEndpoint c (Inr r) = loginOneUser c login user (lookupTrace c r)"
    using assms(1-4) by (simp add: loginEndpoint_lookup)
  also have "\<dots> = respondWithToken c login user
       (lookupTrace c r @ [SubscriptionFetched (UserId user) (AccountId user)])
       (case subscription of
          None \<Rightarrow> False
        | Some sub \<Rightarrow> Status sub = SubscriptionStatusActive
                      \<or> Status sub = SubscriptionStatusTrialing)"
    using assms(5-7) by (auto simp: loginOneUser_def recognizedStatuses_def)
  finally show ?thesis .
qed

lemma billing_disabled_response:
  assumes "validateCaptchaMaybe c (Captcha r) = None"
    and "8 \<le> length (requestPassword r)"
    and "selectLogin c (requestEmail c r) (requestHash c r) = Inr login"
    and "Users login = [user]"
    and "\<not> BillingEnabled (configuration c)"
    and "SignedString c
           (tokenClaims c (LoginId login) (UserId user) (AccountId user) True)
           (LoginJwtSecret (configuration c)) = Inr token"
  shows "loginEndpoint c (Inr r) =
     (JSON [(''token'', JString token)],
      lookupTrace c r @
        [TokenSigned (tokenClaims c (LoginId login) (UserId user) (AccountId user) True)
           (LoginJwtSecret (configuration c))])"
proof -
  have "loginEndpoint c (Inr r) = loginOneUser c login user (lookupTrace c r)"
    using assms(1-4) by (simp add: loginEndpoint_lookup)
  with assms(5,6) show ?thesis
    by (simp add: loginOneUser_def generateToken_signed)
qed

lemma many_users_response:
  assumes "validateCaptchaMaybe c (Captcha r) = None"
    and "8 \<le> length (requestPassword r)"
    and "selectLogin c (requestEmail c r) (requestHash c r) = Inr login"
    and "2 \<le> length (Users login)"
    and "SignedString c (tokenClaims c (LoginId login) 0 0 True)
           (LoginJwtSecret (configuration c)) = Inr token"
  shows "loginEndpoint c (Inr r) =
     (JSON [(''token'', JString token), (''users'', JUsers (Users login))],
      lookupTrace c r @
        [TokenSigned (tokenClaims c (LoginId login) 0 0 True)
           (LoginJwtSecret (configuration c))])"
proof -
  from assms(4) obtain u v rest where "Users login = u # v # rest"
    by (cases "Users login"; cases "tl (Users login)") auto
  then have "loginEndpoint c (Inr r) = loginManyUsers c login (lookupTrace c r)"
    using assms(1-3) by (simp add: loginEndpoint_lookup)
  with assms(5) show ?thesis
    by (simp add: loginManyUsers_def generateToken_signed)
qed

text \<open>Neither the many-user answer nor the billing-off answer calls the billing repository.\<close>

lemma no_billing_call:
  "billingEvents (lookupTrace c r @ [TokenSigned claims key]) = []"
  by (simp add: billingEvents_def lookupTrace_def)

lemma outcome_success:
  "outcome (JSON [(''token'', JString token)]) = Authenticated token
   \<and> outcome (JSON [(''token'', JString token),
                     (''nextUrl'', JString ''/account/subscribe'')]) =
       AuthenticatedNeedsSubscription token
   \<and> outcome (JSON [(''token'', JString token), (''users'', JUsers users)]) =
       Disambiguation token users"
  by (simp add: outcome_def)

lemma respondWithToken_not_error:
  "fst (respondWithToken c login user tr active) \<noteq> ReturnError code msg"
  by (simp add: respondWithToken_def split: prod.splits sum.splits)

lemma loginOneUser_unsupported:
  assumes "BillingEnabled (configuration c)"
    and "GetActiveSubscription c (UserId user) (AccountId user) = Inr (Some sub)"
    and "Status sub \<notin> set recognizedStatuses"
  shows "loginOneUser c login user tr =
     (ReturnError StatusNotImplemented ''invalid subscription status, create a github issue'',
      tr @ [SubscriptionFetched (UserId user) (AccountId user),
            SentryMessage (''invalid subscription status: '' @ Status sub)])"
  using assms by (simp add: loginOneUser_def recognizedStatuses_def)

section \<open>The claims\<close>

subsection \<open>C1: the billing status and the token\<close>

text \<open>
  C1 says that an \<^verbatim>\<open>active\<close> or \<^verbatim>\<open>trialing\<close> subscription yields Authenticated
  with authorized=true, the five lapsed statuses and a missing subscription yield
  AuthenticatedNeedsSubscription with authorized=false. The response shapes are as
  claimed (\<open>billing_decision\<close>, \<open>respondWithToken_signed\<close>): a token alone for the
  first group, a token and \<^verbatim>\<open>nextUrl\<close> for the second. The token is not: for the one
  user of the test installation with an \<^verbatim>\<open>active\<close> subscription, the handler answers
  with the token alone, and the claims it has signed carry \<^verbatim>\<open>SubscriptionStatus\<close>
  false, because \<open>generateToken\<close> never copies the flag it is given (see C5).
\<close>

theorem active_subscription_token_not_authorized:
  "loginEndpoint (testController True (Some \<lparr> Status = SubscriptionStatusActive \<rparr>))
       (Inr (testRequest '' Solo@Monetr.test '' ''password1'')) =
     (JSON [(''token'', JString ''signed'')],
      [CaptchaValidated [],
       LoginValidated ''solo@monetr.test'' ''password1'',
       PasswordHashed ''solo@monetr.test'' ''password1'',
       LoginSelected ''solo@monetr.test'' ''solo@monetr.test:password1'',
       SubscriptionFetched 10 100,
       TokenSigned
         \<lparr> claimLoginId = 1, claimUserId = 10, claimAccountId = 100,
           SubscriptionStatus = False,
           Standard = \<lparr> Audience = [''api.monetr.test''], ExpiresAt = 1702678400, Id = [],
             IssuedAt = 1700000000, Issuer = ''api.monetr.test'', NotBefore = 1700000000,
             Subject = ''monetr'' \<rparr> \<rparr>
         ''key''])"
  by code_simp

subsection \<open>C2: an unrecognised billing status\<close>

text \<open>
  C2. For a login with one user and billing on, when the subscription's status is none
  of the seven the switch knows, the handler answers 501 "invalid subscription status,
  create a github issue" (the specification's UnsupportedBillingStatus). It signs no
  token, the last call it makes is the Sentry message naming the status, and its
  response is not the one lines 135-149 give for an inactive subscription.
\<close>

theorem unsupported_status_aborts:
  assumes "validateCaptchaMaybe c (Captcha r) = None"
    and "8 \<le> length (requestPassword r)"
    and "selectLogin c (requestEmail c r) (requestHash c r) = Inr login"
    and "Users login = [user]"
    and "BillingEnabled (configuration c)"
    and "GetActiveSubscription c (UserId user) (AccountId user) = Inr (Some sub)"
    and "Status sub \<notin> set recognizedStatuses"
  shows "loginEndpoint c (Inr r) =
           (ReturnError StatusNotImplemented
              ''invalid subscription status, create a github issue'',
            lookupTrace c r @
              [SubscriptionFetched (UserId user) (AccountId user),
               SentryMessage (''invalid subscription status: '' @ Status sub)])
       \<and> outcome (fst (loginEndpoint c (Inr r))) = Failure UnsupportedBillingStatus
       \<and> tokenEvents (snd (loginEndpoint c (Inr r))) = []
       \<and> last (snd (loginEndpoint c (Inr r))) =
           SentryMessage (''invalid subscription status: '' @ Status sub)
       \<and> fst (loginEndpoint c (Inr r)) \<noteq>
           fst (respondWithToken c login user
                  (lookupTrace c r @ [SubscriptionFetched (UserId user) (AccountId user)])
                  False)"
proof -
  have "loginEndpoint c (Inr r) = loginOneUser c login user (lookupTrace c r)"
    using assms(1-4) by (simp add: loginEndpoint_lookup)
  with assms(5-7) have result: "loginEndpoint c (Inr r) =
      (ReturnError StatusNotImplemented ''invalid subscription status, create a github issue'',
       lookupTrace c r @
         [SubscriptionFetched (UserId user) (AccountId user),
          SentryMessage (''invalid subscription status: '' @ Status sub)])"
    by (simp add: loginOneUser_unsupported)
  have kind: "outcome (fst (loginEndpoint c (Inr r))) = Failure UnsupportedBillingStatus"
    unfolding result by (simp add: outcome_def)
  have unsigned: "tokenEvents (snd (loginEndpoint c (Inr r))) = []"
    unfolding result by (simp add: tokenEvents_def lookupTrace_def)
  have reported: "last (snd (loginEndpoint c (Inr r))) =
      SentryMessage (''invalid subscription status: '' @ Status sub)"
    unfolding result by simp
  have "fst (loginEndpoint c (Inr r)) \<noteq> fst (respondWithToken c login user tr False)" for tr
    unfolding result by (metis fst_conv respondWithToken_not_error)
  with result kind unsigned reported show ?thesis by blast
qed

theorem unsupported_status_aborts_witness:
  "validateCaptchaMaybe (testController True (Some \<lparr> Status = ''paused'' \<rparr>))
       (Captcha (testRequest '' Solo@Monetr.test '' ''password1'')) = None
   \<and> 8 \<le> length (requestPassword (testRequest '' Solo@Monetr.test '' ''password1''))
   \<and> BillingEnabled (configuration (testController True (Some \<lparr> Status = ''paused'' \<rparr>)))
   \<and> ''paused'' \<notin> set recognizedStatuses
   \<and> loginEndpoint (testController True (Some \<lparr> Status = ''paused'' \<rparr>))
       (Inr (testRequest '' Solo@Monetr.test '' ''password1'')) =
       (ReturnError StatusNotImplemented ''invalid subscription status, create a github issue'',
        [CaptchaValidated [],
         LoginValidated ''solo@monetr.test'' ''password1'',
         PasswordHashed ''solo@monetr.test'' ''password1'',
         LoginSelected ''solo@monetr.test'' ''solo@monetr.test:password1'',
         SubscriptionFetched 10 100,
         SentryMessage ''invalid subscription status: paused''])"
proof -
  let ?c = "testController True (Some \<lparr> Status = ''paused'' \<rparr>)"
  let ?r = "testRequest '' Solo@Monetr.test '' ''password1''"
  let ?login = "\<lparr> LoginId = 1, LoginEmail = ''solo@monetr.test'',
        PasswordHash = ''solo@monetr.test:password1'',
        Users = [\<lparr> UserId = 10, AccountId = 100 \<rparr>] \<rparr>"
  let ?user = "\<lparr> UserId = 10, AccountId = 100 \<rparr>"
  let ?sub = "\<lparr> Status = ''paused'' \<rparr>"
  have captcha: "validateCaptchaMaybe ?c (Captcha ?r) = None" by code_simp
  have long: "8 \<le> length (requestPassword ?r)" by code_simp
  have found: "selectLogin ?c (requestEmail ?c ?r) (requestHash ?c ?r) = Inr ?login"
    by code_simp
  have one: "Users ?login = [?user]" by simp
  have billing: "BillingEnabled (configuration ?c)" by code_simp
  have fetched: "GetActiveSubscription ?c (UserId ?user) (AccountId ?user) = Inr (Some ?sub)"
    by code_simp
  have unknown: "Status ?sub \<notin> set recognizedStatuses" by code_simp
  have trace: "lookupTrace ?c ?r =
      [CaptchaValidated [],
       LoginValidated ''solo@monetr.test'' ''password1'',
       PasswordHashed ''solo@monetr.test'' ''password1'',
       LoginSelected ''solo@monetr.test'' ''solo@monetr.test:password1'']"
    by code_simp
  from unsupported_status_aborts [OF captcha long found one billing fetched unknown]
  have "loginEndpoint ?c (Inr ?r) =
      (ReturnError StatusNotImplemented ''invalid subscription status, create a github issue'',
       lookupTrace ?c ?r @
         [SubscriptionFetched (UserId ?user) (AccountId ?user),
          SentryMessage (''invalid subscription status: '' @ Status ?sub)])"
    by (rule conjunct1)
  with trace captcha long billing unknown show ?thesis by simp
qed

subsection \<open>C3: unknown identifier and wrong secret\<close>

text \<open>
  C3. With the store reachable, take a request whose normalised email is in no row, and
  a request whose normalised email is in some row but whose digest is in none of the rows
  with that email; both past the captcha check and the length check. Both get the same
  response, 403 "invalid email and password" (the specification's InvalidCredentials),
  and no token is signed for either.
\<close>

theorem invalid_credentials_indistinguishable:
  assumes "dbError c = None"
    and "validateCaptchaMaybe c (Captcha r1) = None"
    and "8 \<le> length (requestPassword r1)"
    and "\<not> knownIdentifier c (requestEmail c r1)"
    and "validateCaptchaMaybe c (Captcha r2) = None"
    and "8 \<le> length (requestPassword r2)"
    and "wrongSecret c (requestEmail c r2) (requestHash c r2)"
  shows "fst (loginEndpoint c (Inr r1)) =
           ReturnError StatusForbidden ''invalid email and password''
       \<and> fst (loginEndpoint c (Inr r2)) = fst (loginEndpoint c (Inr r1))
       \<and> outcome (fst (loginEndpoint c (Inr r1))) = Failure InvalidCredentials
       \<and> outcome (fst (loginEndpoint c (Inr r2))) = Failure InvalidCredentials
       \<and> tokenEvents (snd (loginEndpoint c (Inr r1))) = []
       \<and> tokenEvents (snd (loginEndpoint c (Inr r2))) = []"
proof -
  have "selectLogin c (requestEmail c r1) (requestHash c r1) = Inl ErrNoRows"
    using assms(1,4) by (simp add: selectLogin_no_match unknown_no_match)
  with assms(2,3) have unknown: "loginEndpoint c (Inr r1) =
      (ReturnError StatusForbidden ''invalid email and password'', lookupTrace c r1)"
    by (rule not_found_response)
  have "selectLogin c (requestEmail c r2) (requestHash c r2) = Inl ErrNoRows"
    using assms(1,7) by (simp add: selectLogin_no_match wrongSecret_def)
  with assms(5,6) have wrong: "loginEndpoint c (Inr r2) =
      (ReturnError StatusForbidden ''invalid email and password'', lookupTrace c r2)"
    by (rule not_found_response)
  from unknown wrong show ?thesis
    by (simp add: outcome_invalid_credentials tokenEvents_def lookupTrace_def)
qed

theorem invalid_credentials_indistinguishable_witness:
  "dbError (testController True None) = None
   \<and> \<not> knownIdentifier (testController True None)
         (requestEmail (testController True None)
            (testRequest ''ghost@monetr.test'' ''password1''))
   \<and> wrongSecret (testController True None)
         (requestEmail (testController True None)
            (testRequest ''Solo@monetr.test'' ''password9''))
         (requestHash (testController True None)
            (testRequest ''Solo@monetr.test'' ''password9''))
   \<and> fst (loginEndpoint (testController True None)
            (Inr (testRequest ''ghost@monetr.test'' ''password1''))) =
       ReturnError StatusForbidden ''invalid email and password''
   \<and> fst (loginEndpoint (testController True None)
            (Inr (testRequest ''Solo@monetr.test'' ''password9''))) =
       fst (loginEndpoint (testController True None)
            (Inr (testRequest ''ghost@monetr.test'' ''password1'')))"
proof -
  let ?c = "testController True None"
  let ?r1 = "testRequest ''ghost@monetr.test'' ''password1''"
  let ?r2 = "testRequest ''Solo@monetr.test'' ''password9''"
  have up: "dbError ?c = None" by code_simp
  have captcha1: "validateCaptchaMaybe ?c (Captcha ?r1) = None" by code_simp
  have long1: "8 \<le> length (requestPassword ?r1)" by code_simp
  have unknown: "\<not> knownIdentifier ?c (requestEmail ?c ?r1)" by code_simp
  have captcha2: "validateCaptchaMaybe ?c (Captcha ?r2) = None" by code_simp
  have long2: "8 \<le> length (requestPassword ?r2)" by code_simp
  have wrong: "wrongSecret ?c (requestEmail ?c ?r2) (requestHash ?c ?r2)" by code_simp
  from invalid_credentials_indistinguishable
         [OF up captcha1 long1 unknown captcha2 long2 wrong] up unknown wrong
  show ?thesis by blast
qed

subsection \<open>C4: a login with several users\<close>

text \<open>
  C4 says that a login with two or more users gets a Disambiguation outcome whose token
  claims have userId=0, accountId=0 and authorized=true, with all its users listed and
  billing never consulted. For the two-user login of the test installation the handler
  lists both users, signs claims with user id 0 and account id 0, and makes no call to
  the billing repository (\<open>many_users_response\<close> has this for every such login); but
  the claims it signs carry \<^verbatim>\<open>SubscriptionStatus\<close> false, although line 154 passes
  true: \<open>generateToken\<close> never copies the flag (see C5).
\<close>

theorem many_users_token_not_authorized:
  "loginEndpoint (testController True None)
       (Inr (testRequest ''many@monetr.test'' ''password3'')) =
     (JSON [(''token'', JString ''signed''),
            (''users'', JUsers [\<lparr> UserId = 30, AccountId = 300 \<rparr>,
                                \<lparr> UserId = 31, AccountId = 301 \<rparr>])],
      [CaptchaValidated [],
       LoginValidated ''many@monetr.test'' ''password3'',
       PasswordHashed ''many@monetr.test'' ''password3'',
       LoginSelected ''many@monetr.test'' ''many@monetr.test:password3'',
       TokenSigned
         \<lparr> claimLoginId = 3, claimUserId = 0, claimAccountId = 0,
           SubscriptionStatus = False,
           Standard = \<lparr> Audience = [''api.monetr.test''], ExpiresAt = 1702678400, Id = [],
             IssuedAt = 1700000000, Issuer = ''api.monetr.test'', NotBefore = 1700000000,
             Subject = ''monetr'' \<rparr> \<rparr>
         ''key''])"
  by code_simp

subsection \<open>C5: the claims of a token\<close>

text \<open>
  C5 says that every token has issuedAt = notBefore = the issue time, expiresAt 31 times
  24 hours later, audience and issuer the API domain, subject the constant "monetr",
  and carries the tuple (principalId, userId, accountId, authorized) unchanged. All of it
  holds (\<open>tokenClaims_subject\<close>, \<open>tokenClaims_standard\<close>) except the last component:
  called with the flag true, \<open>generateToken\<close> signs claims whose
  \<^verbatim>\<open>SubscriptionStatus\<close> is false. The literal of lines 178-193 does not name the
  field, and the parameter \<^verbatim>\<open>subscriptionActive\<close> is never read.
\<close>

theorem generateToken_drops_authorized:
  "generateToken (testController True None) 1 10 100 True =
     (Inr ''signed'',
      [TokenSigned
         \<lparr> claimLoginId = 1, claimUserId = 10, claimAccountId = 100,
           SubscriptionStatus = False,
           Standard = \<lparr> Audience = [''api.monetr.test''], ExpiresAt = 1702678400, Id = [],
             IssuedAt = 1700000000, Issuer = ''api.monetr.test'', NotBefore = 1700000000,
             Subject = ''monetr'' \<rparr> \<rparr>
         ''key''])"
  by code_simp

subsection \<open>C6: a short secret is rejected before the store is read\<close>

text \<open>
  C6. Lines 59-60 replace the email of the request by its trimmed and lowercased form
  and the password by its trimmed form; line 62 checks these values, and the handler's
  log shows the check called with exactly them. When the captcha check has passed and
  the trimmed password has fewer than eight bytes, the handler answers 400 "login is
  not valid" (the specification's InvalidInput) having called nothing but the captcha
  check and this validation: no hashing and no query. The answer is the same whatever
  the store holds, whether it is reachable, and whatever the hasher is.
\<close>

theorem short_secret_rejected:
  assumes "validateCaptchaMaybe c (Captcha r) = None"
    and "length (TrimSpace (Password r)) < 8"
  shows "loginEndpoint c (Inr r) =
           (WrapAndReturnError (Error ''password must be at least 8 characters'')
              StatusBadRequest ''login is not valid'',
            [CaptchaValidated (Captcha r),
             LoginValidated (ToLower (unicodeToLower c) (TrimSpace (Email r)))
               (TrimSpace (Password r))])
       \<and> validateLogin c (ToLower (unicodeToLower c) (TrimSpace (Email r)))
             (TrimSpace (Password r)) =
           Some (Error ''password must be at least 8 characters'')
       \<and> outcome (fst (loginEndpoint c (Inr r))) = Failure InvalidInput
       \<and> loginEndpoint (c\<lparr>dbError := e, logins := ls, HashPassword := h\<rparr>) (Inr r) =
           loginEndpoint c (Inr r)"
  using assms
  by (simp add: loginEndpoint_def validateLogin_def outcome_def Let_def)

theorem short_secret_rejected_witness:
  "validateCaptchaMaybe (testController True None)
       (Captcha (testRequest ''  Solo@Monetr.TEST '' ''  short   '')) = None
   \<and> length (TrimSpace (Password (testRequest ''  Solo@Monetr.TEST '' ''  short   ''))) < 8
   \<and> loginEndpoint (testController True None)
       (Inr (testRequest ''  Solo@Monetr.TEST '' ''  short   '')) =
       (WrapAndReturnError (Error ''password must be at least 8 characters'')
          StatusBadRequest ''login is not valid'',
        [CaptchaValidated [], LoginValidated ''solo@monetr.test'' ''short''])
   \<and> loginEndpoint (testController True None
         \<lparr>dbError := Some (Error ''down''), logins := [], HashPassword := (\<lambda>e p. [])\<rparr>)
       (Inr (testRequest ''  Solo@Monetr.TEST '' ''  short   '')) =
     loginEndpoint (testController True None)
       (Inr (testRequest ''  Solo@Monetr.TEST '' ''  short   ''))"
proof -
  let ?c = "testController True None"
  let ?r = "testRequest ''  Solo@Monetr.TEST '' ''  short   ''"
  have captcha: "validateCaptchaMaybe ?c (Captcha ?r) = None" by code_simp
  have short: "length (TrimSpace (Password ?r)) < 8" by code_simp
  have request: "Captcha ?r = []"
    "ToLower (unicodeToLower ?c) (TrimSpace (Email ?r)) = ''solo@monetr.test''"
    "TrimSpace (Password ?r) = ''short''"
    by code_simp+
  note rejected = short_secret_rejected [OF captcha short]
  from rejected have "loginEndpoint ?c (Inr ?r) =
      (WrapAndReturnError (Error ''password must be at least 8 characters'')
         StatusBadRequest ''login is not valid'',
       [CaptchaValidated (Captcha ?r),
        LoginValidated (ToLower (unicodeToLower ?c) (TrimSpace (Email ?r)))
          (TrimSpace (Password ?r))])"
    by blast
  then have response: "loginEndpoint ?c (Inr ?r) =
      (WrapAndReturnError (Error ''password must be at least 8 characters'')
         StatusBadRequest ''login is not valid'',
       [CaptchaValidated [], LoginValidated ''solo@monetr.test'' ''short''])"
    by (simp only: request)
  from rejected have "loginEndpoint
       (?c\<lparr>dbError := Some (Error ''down''), logins := [], HashPassword := (\<lambda>e p. [])\<rparr>)
       (Inr ?r) = loginEndpoint ?c (Inr ?r)"
    by blast
  with captcha short response show ?thesis by blast
qed

subsection \<open>C7: one user, billing off\<close>

text \<open>
  C7 says that with billing off a login with one user gets Authenticated with a token
  whose claims have authorized=true and the user's ids, the billing resolver never being
  called. For the one-user login of the test installation with billing off (and a
  cancelled subscription on file) the handler answers with the token alone, signs claims
  with that user's ids, and makes no call to the billing repository
  (\<open>billing_disabled_response\<close> has this for every such login); but the claims carry
  \<^verbatim>\<open>SubscriptionStatus\<close> false, although line 95 passes true: \<open>generateToken\<close>
  never copies the flag (see C5).
\<close>

theorem billing_disabled_token_not_authorized:
  "loginEndpoint (testController False (Some \<lparr> Status = SubscriptionStatusCanceled \<rparr>))
       (Inr (testRequest ''solo@monetr.test'' ''password1'')) =
     (JSON [(''token'', JString ''signed'')],
      [CaptchaValidated [],
       LoginValidated ''solo@monetr.test'' ''password1'',
       PasswordHashed ''solo@monetr.test'' ''password1'',
       LoginSelected ''solo@monetr.test'' ''solo@monetr.test:password1'',
       TokenSigned
         \<lparr> claimLoginId = 1, claimUserId = 10, claimAccountId = 100,
           SubscriptionStatus = False,
           Standard = \<lparr> Audience = [''api.monetr.test''], ExpiresAt = 1702678400, Id = [],
             IssuedAt = 1700000000, Issuer = ''api.monetr.test'', NotBefore = 1700000000,
             Subject = ''monetr'' \<rparr> \<rparr>
         ''key''])"
  by code_simp

subsection \<open>C8: a login without users\<close>

text \<open>
  C8. When the query finds a row for the email and digest of the request (so the
  credential has matched) and that login has no user, the handler answers 403 "user has
  no accounts" (the specification's NoLinkedAccounts). A request whose query finds no row
  gets 403 "invalid email and password" (InvalidCredentials): another response, and
  another outcome.
\<close>

theorem no_linked_accounts_distinct:
  assumes "validateCaptchaMaybe c (Captcha r) = None"
    and "8 \<le> length (requestPassword r)"
    and "selectLogin c (requestEmail c r) (requestHash c r) = Inr login"
    and "Users login = []"
    and "validateCaptchaMaybe c' (Captcha r') = None"
    and "8 \<le> length (requestPassword r')"
    and "selectLogin c' (requestEmail c' r') (requestHash c' r') = Inl ErrNoRows"
  shows "LoginEmail login = requestEmail c r \<and> PasswordHash login = requestHash c r
       \<and> loginEndpoint c (Inr r) =
           (ReturnError StatusForbidden ''user has no accounts'', lookupTrace c r)
       \<and> outcome (fst (loginEndpoint c (Inr r))) = Failure NoLinkedAccounts
       \<and> outcome (fst (loginEndpoint c' (Inr r'))) = Failure InvalidCredentials
       \<and> fst (loginEndpoint c (Inr r)) \<noteq> fst (loginEndpoint c' (Inr r'))"
proof -
  have found: "loginEndpoint c (Inr r) =
      (ReturnError StatusForbidden ''user has no accounts'', lookupTrace c r)"
    using assms(1-4) by (simp add: loginEndpoint_lookup)
  have missing: "loginEndpoint c' (Inr r') =
      (ReturnError StatusForbidden ''invalid email and password'', lookupTrace c' r')"
    using assms(5-7) by (rule not_found_response)
  from selectLogin_found [OF assms(3)] found missing show ?thesis
    by (simp add: outcome_invalid_credentials outcome_no_linked_accounts)
qed

theorem no_linked_accounts_distinct_witness:
  "selectLogin (testController True None)
       (requestEmail (testController True None)
          (testRequest ''none@monetr.test'' ''password2''))
       (requestHash (testController True None)
          (testRequest ''none@monetr.test'' ''password2'')) =
     Inr \<lparr> LoginId = 2, LoginEmail = ''none@monetr.test'',
           PasswordHash = ''none@monetr.test:password2'', Users = [] \<rparr>
   \<and> selectLogin (testController True None)
       (requestEmail (testController True None)
          (testRequest ''ghost@monetr.test'' ''password2''))
       (requestHash (testController True None)
          (testRequest ''ghost@monetr.test'' ''password2'')) = Inl ErrNoRows
   \<and> loginEndpoint (testController True None)
         (Inr (testRequest ''none@monetr.test'' ''password2'')) =
       (ReturnError StatusForbidden ''user has no accounts'',
        [CaptchaValidated [],
         LoginValidated ''none@monetr.test'' ''password2'',
         PasswordHashed ''none@monetr.test'' ''password2'',
         LoginSelected ''none@monetr.test'' ''none@monetr.test:password2''])
   \<and> fst (loginEndpoint (testController True None)
            (Inr (testRequest ''none@monetr.test'' ''password2''))) \<noteq>
       fst (loginEndpoint (testController True None)
            (Inr (testRequest ''ghost@monetr.test'' ''password2'')))"
proof -
  let ?c = "testController True None"
  let ?r = "testRequest ''none@monetr.test'' ''password2''"
  let ?r' = "testRequest ''ghost@monetr.test'' ''password2''"
  let ?login = "\<lparr> LoginId = 2, LoginEmail = ''none@monetr.test'',
           PasswordHash = ''none@monetr.test:password2'', Users = [] \<rparr>"
  have captcha: "validateCaptchaMaybe ?c (Captcha ?r) = None" by code_simp
  have long: "8 \<le> length (requestPassword ?r)" by code_simp
  have found: "selectLogin ?c (requestEmail ?c ?r) (requestHash ?c ?r) = Inr ?login"
    by code_simp
  have none: "Users ?login = []" by simp
  have captcha': "validateCaptchaMaybe ?c (Captcha ?r') = None" by code_simp
  have long': "8 \<le> length (requestPassword ?r')" by code_simp
  have missing: "selectLogin ?c (requestEmail ?c ?r') (requestHash ?c ?r') = Inl ErrNoRows"
    by code_simp
  have trace: "lookupTrace ?c ?r =
      [CaptchaValidated [],
       LoginValidated ''none@monetr.test'' ''password2'',
       PasswordHashed ''none@monetr.test'' ''password2'',
       LoginSelected ''none@monetr.test'' ''none@monetr.test:password2'']"
    by code_simp
  note distinct = no_linked_accounts_distinct
    [OF captcha long found none captcha' long' missing]
  from distinct have "loginEndpoint ?c (Inr ?r) =
      (ReturnError StatusForbidden ''user has no accounts'', lookupTrace ?c ?r)"
    by blast
  then have response: "loginEndpoint ?c (Inr ?r) =
      (ReturnError StatusForbidden ''user has no accounts'',
       [CaptchaValidated [],
        LoginValidated ''none@monetr.test'' ''password2'',
        PasswordHashed ''none@monetr.test'' ''password2'',
        LoginSelected ''none@monetr.test'' ''none@monetr.test:password2''])"
    by (simp only: trace)
  from distinct
  have "fst (loginEndpoint ?c (Inr ?r)) \<noteq> fst (loginEndpoint ?c (Inr ?r'))"
    by blast
  with found missing response show ?thesis by blast
qed

subsection \<open>C9: the query reads one row\<close>

text \<open>
  C9. When several rows of the login table match the email and digest of a request
  (past the captcha and length checks, the store reachable), the query returns the
  first of them and nothing else. The handler answers from that row alone, by the
  number of its users, and the response and the calls made are those for the table that
  holds this one row only: the other matching logins are never seen by the caller.
  (The table is listed in the order the database returns its rows; the query has no
  \<^verbatim>\<open>ORDER BY\<close>.)
\<close>

theorem lookup_proceeds_with_first_match:
  assumes "validateCaptchaMaybe c (Captcha r) = None"
    and "8 \<le> length (requestPassword r)"
    and "dbError c = None"
    and "matching c (requestEmail c r) (requestHash c r) = login # others"
  shows "selectLogin c (requestEmail c r) (requestHash c r) = Inr login
       \<and> LoginEmail login = requestEmail c r \<and> PasswordHash login = requestHash c r
       \<and> loginEndpoint c (Inr r) =
           (case Users login of
              [] \<Rightarrow> (ReturnError StatusForbidden ''user has no accounts'', lookupTrace c r)
            | [user] \<Rightarrow> loginOneUser c login user (lookupTrace c r)
            | _ # _ # _ \<Rightarrow> loginManyUsers c login (lookupTrace c r))
       \<and> loginEndpoint c (Inr r) = loginEndpoint (c\<lparr>logins := [login]\<rparr>) (Inr r)"
proof -
  have found: "selectLogin c (requestEmail c r) (requestHash c r) = Inr login"
    using assms(3,4) by (simp add: selectLogin_matching)
  have response: "loginEndpoint c (Inr r) =
      (case Users login of
         [] \<Rightarrow> (ReturnError StatusForbidden ''user has no accounts'', lookupTrace c r)
       | [user] \<Rightarrow> loginOneUser c login user (lookupTrace c r)
       | _ # _ # _ \<Rightarrow> loginManyUsers c login (lookupTrace c r))"
    using assms(1,2) found by (simp add: loginEndpoint_lookup)
  have alone: "loginEndpoint c (Inr r) = loginEndpoint (c\<lparr>logins := [login]\<rparr>) (Inr r)"
    using lookup_ignores_other_rows [of c r] assms(4) by simp
  from selectLogin_found [OF found] found response alone show ?thesis by blast
qed

theorem lookup_proceeds_with_first_match_witness:
  "matching twinController
       (requestEmail twinController (testRequest ''solo@monetr.test'' ''password1''))
       (requestHash twinController (testRequest ''solo@monetr.test'' ''password1'')) =
     [\<lparr> LoginId = 1, LoginEmail = ''solo@monetr.test'',
        PasswordHash = ''solo@monetr.test:password1'',
        Users = [\<lparr> UserId = 10, AccountId = 100 \<rparr>] \<rparr>,
      \<lparr> LoginId = 9, LoginEmail = ''solo@monetr.test'',
        PasswordHash = ''solo@monetr.test:password1'', Users = [] \<rparr>]
   \<and> selectLogin twinController
       (requestEmail twinController (testRequest ''solo@monetr.test'' ''password1''))
       (requestHash twinController (testRequest ''solo@monetr.test'' ''password1'')) =
     Inr \<lparr> LoginId = 1, LoginEmail = ''solo@monetr.test'',
           PasswordHash = ''solo@monetr.test:password1'',
           Users = [\<lparr> UserId = 10, AccountId = 100 \<rparr>] \<rparr>
   \<and> loginEndpoint twinController (Inr (testRequest ''solo@monetr.test'' ''password1'')) =
     (JSON [(''token'', JString ''signed'')],
      [CaptchaValidated [],
       LoginValidated ''solo@monetr.test'' ''password1'',
       PasswordHashed ''solo@monetr.test'' ''password1'',
       LoginSelected ''solo@monetr.test'' ''solo@monetr.test:password1'',
       TokenSigned
         \<lparr> claimLoginId = 1, claimUserId = 10, claimAccountId = 100,
           SubscriptionStatus = False,
           Standard = \<lparr> Audience = [''api.monetr.test''], ExpiresAt = 1702678400, Id = [],
             IssuedAt = 1700000000, Issuer = ''api.monetr.test'', NotBefore = 1700000000,
             Subject = ''monetr'' \<rparr> \<rparr>
         ''key''])"
proof -
  let ?r = "testRequest ''solo@monetr.test'' ''password1''"
  let ?user = "\<lparr> UserId = 10, AccountId = 100 \<rparr>"
  let ?first = "\<lparr> LoginId = 1, LoginEmail = ''solo@monetr.test'',
        PasswordHash = ''solo@monetr.test:password1'', Users = [?user] \<rparr>"
  let ?second = "\<lparr> LoginId = 9, LoginEmail = ''solo@monetr.test'',
        PasswordHash = ''solo@monetr.test:password1'', Users = [] \<rparr>"
  have captcha: "validateCaptchaMaybe twinController (Captcha ?r) = None" by code_simp
  have long: "8 \<le> length (requestPassword ?r)" by code_simp
  have up: "dbError twinController = None" by code_simp
  have both: "matching twinController (requestEmail twinController ?r)
       (requestHash twinController ?r) = ?first # [?second]"
    by code_simp
  have branch: "(case Users ?first of
         [] \<Rightarrow> (ReturnError StatusForbidden ''user has no accounts'',
                lookupTrace twinController ?r)
       | [user] \<Rightarrow> loginOneUser twinController ?first user (lookupTrace twinController ?r)
       | _ # _ # _ \<Rightarrow> loginManyUsers twinController ?first (lookupTrace twinController ?r)) =
     (JSON [(''token'', JString ''signed'')],
      [CaptchaValidated [],
       LoginValidated ''solo@monetr.test'' ''password1'',
       PasswordHashed ''solo@monetr.test'' ''password1'',
       LoginSelected ''solo@monetr.test'' ''solo@monetr.test:password1'',
       TokenSigned
         \<lparr> claimLoginId = 1, claimUserId = 10, claimAccountId = 100,
           SubscriptionStatus = False,
           Standard = \<lparr> Audience = [''api.monetr.test''], ExpiresAt = 1702678400, Id = [],
             IssuedAt = 1700000000, Issuer = ''api.monetr.test'', NotBefore = 1700000000,
             Subject = ''monetr'' \<rparr> \<rparr>
         ''key''])"
    by code_simp
  note first = lookup_proceeds_with_first_match [OF captcha long up both]
  from first have found: "selectLogin twinController (requestEmail twinController ?r)
       (requestHash twinController ?r) = Inr ?first"
    by blast
  from first have "loginEndpoint twinController (Inr ?r) =
      (case Users ?first of
         [] \<Rightarrow> (ReturnError StatusForbidden ''user has no accounts'',
                lookupTrace twinController ?r)
       | [user] \<Rightarrow> loginOneUser twinController ?first user (lookupTrace twinController ?r)
       | _ # _ # _ \<Rightarrow> loginManyUsers twinController ?first (lookupTrace twinController ?r))"
    by blast
  then have response: "loginEndpoint twinController (Inr ?r) =
     (JSON [(''token'', JString ''signed'')],
      [CaptchaValidated [],
       LoginValidated ''solo@monetr.test'' ''password1'',
       PasswordHashed ''solo@monetr.test'' ''password1'',
       LoginSelected ''solo@monetr.test'' ''solo@monetr.test:password1'',
       TokenSigned
         \<lparr> claimLoginId = 1, claimUserId = 10, claimAccountId = 100,
           SubscriptionStatus = False,
           Standard = \<lparr> Audience = [''api.monetr.test''], ExpiresAt = 1702678400, Id = [],
             IssuedAt = 1700000000, Issuer = ''api.monetr.test'', NotBefore = 1700000000,
             Subject = ''monetr'' \<rparr> \<rparr>
         ''key''])"
    using branch by (rule trans)
  from both found response show ?thesis by simp
qed

subsection \<open>C10: validation does not look at the identifier\<close>

text \<open>
  C10. \<open>validateLogin\<close> gives the same answer for every email, the empty one included,
  and accepts every email when the password has eight bytes or more. A request whose
  email is empty once trimmed, with such a password, past the captcha check, is hashed
  and looked up under the empty email; when the reachable store has no row for it, the
  handler answers 403 "invalid email and password" (InvalidCredentials, not
  InvalidInput).
\<close>

theorem empty_identifier_reaches_lookup:
  assumes "validateCaptchaMaybe c (Captcha r) = None"
    and "TrimSpace (Email r) = []"
    and "8 \<le> length (TrimSpace (Password r))"
    and "dbError c = None"
    and "matching c [] (HashPassword c [] (TrimSpace (Password r))) = []"
  shows "validateLogin c email password = validateLogin c [] password
       \<and> validateLogin c email (TrimSpace (Password r)) = None
       \<and> loginEndpoint c (Inr r) =
           (ReturnError StatusForbidden ''invalid email and password'',
            [CaptchaValidated (Captcha r),
             LoginValidated [] (TrimSpace (Password r)),
             PasswordHashed [] (TrimSpace (Password r)),
             LoginSelected [] (HashPassword c [] (TrimSpace (Password r)))])
       \<and> outcome (fst (loginEndpoint c (Inr r))) = Failure InvalidCredentials
       \<and> outcome (fst (loginEndpoint c (Inr r))) \<noteq> Failure InvalidInput"
proof -
  have email: "requestEmail c r = []"
    using assms(2) by (simp add: requestEmail_def ToLower_Nil)
  have long: "8 \<le> length (requestPassword r)"
    using assms(3) by (simp add: requestPassword_def)
  have "selectLogin c (requestEmail c r) (requestHash c r) = Inl ErrNoRows"
    using assms(4,5) email
    by (simp add: selectLogin_no_match requestHash_def requestPassword_def)
  with assms(1) long have "loginEndpoint c (Inr r) =
      (ReturnError StatusForbidden ''invalid email and password'', lookupTrace c r)"
    by (rule not_found_response)
  with email assms(3) show ?thesis
    by (simp add: lookupTrace_def requestHash_def requestPassword_def validateLogin_def
        outcome_invalid_credentials)
qed

theorem empty_identifier_reaches_lookup_witness:
  "TrimSpace (Email (testRequest [] ''password1'')) = []
   \<and> 8 \<le> length (TrimSpace (Password (testRequest [] ''password1'')))
   \<and> matching (testController True None) []
        (HashPassword (testController True None) []
           (TrimSpace (Password (testRequest [] ''password1'')))) = []
   \<and> validateLogin (testController True None) [] ''password1'' = None
   \<and> loginEndpoint (testController True None) (Inr (testRequest [] ''password1'')) =
       (ReturnError StatusForbidden ''invalid email and password'',
        [CaptchaValidated [],
         LoginValidated [] ''password1'',
         PasswordHashed [] ''password1'',
         LoginSelected [] '':password1''])"
proof -
  let ?c = "testController True None"
  let ?r = "testRequest [] ''password1''"
  have captcha: "validateCaptchaMaybe ?c (Captcha ?r) = None" by code_simp
  have empty: "TrimSpace (Email ?r) = []" by code_simp
  have long: "8 \<le> length (TrimSpace (Password ?r))" by code_simp
  have up: "dbError ?c = None" by code_simp
  have missing: "matching ?c [] (HashPassword ?c [] (TrimSpace (Password ?r))) = []"
    by code_simp
  have request: "Captcha ?r = []" "TrimSpace (Password ?r) = ''password1''"
    by code_simp+
  have digest: "HashPassword ?c [] ''password1'' = '':password1''"
    by code_simp
  note reached = empty_identifier_reaches_lookup [OF captcha empty long up missing]
  from reached have "validateLogin ?c [] (TrimSpace (Password ?r)) = None"
    by blast
  then have valid: "validateLogin ?c [] ''password1'' = None"
    by (simp only: request)
  from reached have "loginEndpoint ?c (Inr ?r) =
      (ReturnError StatusForbidden ''invalid email and password'',
       [CaptchaValidated (Captcha ?r),
        LoginValidated [] (TrimSpace (Password ?r)),
        PasswordHashed [] (TrimSpace (Password ?r)),
        LoginSelected [] (HashPassword ?c [] (TrimSpace (Password ?r)))])"
    by blast
  then have "loginEndpoint ?c (Inr ?r) =
      (ReturnError StatusForbidden ''invalid email and password'',
       [CaptchaValidated [], LoginValidated [] ''password1'',
        PasswordHashed [] ''password1'',
        LoginSelected [] '':password1''])"
    by (simp only: request digest)
  with empty long missing valid show ?thesis by blast
qed

end
